theory Spec2Isabelle
  imports Main "HOL-Library.Word" "HOL-Library.Sublist"
begin

section \<open>Booking PDF helpers (app/modules/booking/pdf-helpers.ts)\<close>

subsection \<open>Data model\<close>

text \<open>
  A JavaScript \<open>Date\<close> is its number of milliseconds since the epoch. A nullable column
  is an \<open>option\<close>; a \<open>Date\<close> object is always truthy, so \<open>booking.from && booking.to\<close>
  tests only that neither column is null.
\<close>

type_synonym Date = int

type_synonym byte = "8 word"

text \<open>
  The Prisma enum \<open>OrganizationRoles\<close>: the source names only the member
  \<open>SELF_SERVICE\<close>; every other member is \<open>OtherRole\<close> with its name.
\<close>

datatype OrganizationRoles = SELF_SERVICE | OtherRole string

text \<open>A row of the booking table. The status is the enum member's name.\<close>

record Booking =
  booking_id :: string
  booking_name :: string
  booking_status :: string
  booking_from :: "Date option"
  booking_to :: "Date option"
  booking_custodianUserId :: "string option"
  booking_organizationId :: string

text \<open>
  What \<open>getBooking\<close> returns: the row with the ids of its assets
  (\<open>booking.assets.map((a) => a.id)\<close>) and its custodian user.
\<close>

record BookingWithAssets = Booking +
  booking_assets :: "string list"
  booking_custodianUser :: "string option"

text \<open>An asset with its relations loaded; \<open>asset_bookings\<close> holds every booking of the asset.\<close>

record Asset =
  asset_id :: string
  asset_title :: string
  asset_category :: "string option"
  asset_location :: "string option"
  asset_custody :: "string option"
  asset_qrCodes :: "string list"
  asset_bookings :: "Booking list"

record Image =
  image_id :: string
  image_blob :: "byte list"

record Organization =
  organization_id :: string
  organization_name :: string
  organization_imageId :: "string option"
  organization_image :: "Image option"

record PdfDbResult =
  booking :: BookingWithAssets
  assets :: "Asset list"
  organization :: "Organization option"
  assetIdToQrCodeMap :: "string \<rightharpoonup> string"

subsection \<open>Errors\<close>

text \<open>
  The fields handed to the \<open>ShelfError\<close> constructor. \<open>Error\<close> is a plain
  \<open>new Error(message)\<close>; \<open>Thrown\<close> is whatever a collaborator rejects with.
\<close>

record ShelfErrorFields =
  cause :: "string option"
  message :: string
  status :: nat
  label :: string
  shouldBeCaptured :: bool

datatype error = Error string | ShelfError ShelfErrorFields | Thrown string

subsection \<open>The nested bookings filter of the asset query\<close>

text \<open>
  The \<open>where\<close> object of the nested \<open>bookings\<close> include, as data: an optional
  \<open>status: { in: [...] }\<close> and an optional \<open>OR\<close> list whose members constrain the
  \<open>from\<close> and \<open>to\<close> columns with \<open>lte\<close> or \<open>gte\<close>. The empty object has neither key.
\<close>

datatype DateFilter = lte Date | gte Date

record BookingCond =
  cond_from :: "DateFilter option"
  cond_to :: "DateFilter option"

record BookingWhere =
  where_status_in :: "string list option"
  where_OR :: "BookingCond list option"

definition empty_where :: BookingWhere where
  "empty_where = \<lparr>where_status_in = None, where_OR = None\<rparr>"

text \<open>
  The database client's reading of such an object: the keys of one object are conjoined,
  the members of \<open>OR\<close> are disjoined, an absent key constrains nothing, and a comparison
  with a null column is not satisfied.
\<close>

fun matches_date :: "DateFilter option \<Rightarrow> Date option \<Rightarrow> bool" where
  "matches_date None _ = True"
| "matches_date (Some _) None = False"
| "matches_date (Some (lte v)) (Some d) = (d \<le> v)"
| "matches_date (Some (gte v)) (Some d) = (d \<ge> v)"

definition matches_cond :: "BookingCond \<Rightarrow> 'a Booking_scheme \<Rightarrow> bool" where
  "matches_cond c b =
     (matches_date (cond_from c) (booking_from b) \<and> matches_date (cond_to c) (booking_to b))"

definition matches_where :: "BookingWhere \<Rightarrow> 'a Booking_scheme \<Rightarrow> bool" where
  "matches_where w b =
     ((case where_status_in w of None \<Rightarrow> True | Some ss \<Rightarrow> booking_status b \<in> set ss) \<and>
      (case where_OR w of None \<Rightarrow> True | Some cs \<Rightarrow> list_ex (\<lambda>c. matches_cond c b) cs))"

text \<open>Lines 68 to 71: the two members of \<open>OR\<close>.\<close>

definition overlap_OR :: "Date \<Rightarrow> Date \<Rightarrow> BookingCond list" where
  "overlap_OR bfrom bto =
     [\<lparr>cond_from = Some (lte bto), cond_to = Some (gte bfrom)\<rparr>,
      \<lparr>cond_from = Some (gte bfrom), cond_to = Some (lte bto)\<rparr>]"

text \<open>Lines 64 to 74: the filter is built only when both ends of the booking are set.\<close>

definition bookings_where :: "'a Booking_scheme \<Rightarrow> BookingWhere" where
  "bookings_where b =
     (case (booking_from b, booking_to b) of
        (Some bfrom, Some bto) \<Rightarrow>
          \<lparr>where_status_in = Some [''RESERVED'', ''ONGOING'', ''OVERDUE''],
           where_OR = Some (overlap_OR bfrom bto)\<rparr>
      | _ \<Rightarrow> empty_where)"

text \<open>
  The filter in the specification's words, to compare with the one built by the code: the
  status is one of reserved, ongoing and overdue, and the other booking's interval meets
  the window \<open>[bfrom, bto]\<close>, ends included. A booking with an end unset has no interval.
\<close>

definition spec_intersects :: "Date \<Rightarrow> Date \<Rightarrow> 'a Booking_scheme \<Rightarrow> bool" where
  "spec_intersects bfrom bto other =
     (case (booking_from other, booking_to other) of
        (Some ofrom, Some oto) \<Rightarrow> bfrom \<le> oto \<and> bto \<ge> ofrom
      | _ \<Rightarrow> False)"

definition spec_admits :: "Date \<Rightarrow> Date \<Rightarrow> 'a Booking_scheme \<Rightarrow> bool" where
  "spec_admits bfrom bto other =
     (booking_status other \<in> {''RESERVED'', ''ONGOING'', ''OVERDUE''} \<and>
      spec_intersects bfrom bto other)"

text \<open>A booking whose two ends are set has them in order.\<close>

definition ends_in_order :: "'a Booking_scheme \<Rightarrow> bool" where
  "ends_in_order other =
     (case (booking_from other, booking_to other) of
        (Some ofrom, Some oto) \<Rightarrow> ofrom \<le> oto
      | _ \<Rightarrow> True)"

subsection \<open>The queries and their collaborators\<close>

record AssetFindManyArgs =
  where_id_in :: "string list"
  include_category :: bool
  include_custody :: bool
  include_qrCodes :: bool
  include_location :: bool
  include_bookings_where :: BookingWhere

record OrganizationFindUniqueArgs =
  where_id :: string
  select_imageId :: bool
  select_name :: bool
  select_id :: bool
  select_image :: bool

record QrCodeMapsArgs =
  qr_assets :: "Asset list"
  qr_userId :: string
  qr_organizationId :: string
  qr_size :: string

text \<open>Every call the function makes on a collaborator, in the order it makes them.\<close>

datatype db_call =
    GetBooking string string
  | AssetFindMany AssetFindManyArgs
  | OrganizationFindUnique OrganizationFindUniqueArgs
  | GetQrCodeMaps QrCodeMapsArgs

text \<open>
  The collaborators, none of them defined in this file of the source: \<open>getBooking\<close> and
  \<open>getQrCodeMaps\<close> are given by what they resolve or reject with; the database is its
  asset and organization tables, and each of the two queries may reject. When both
  queries reject, \<open>Promise.all\<close> rejects with the one that settles first.
\<close>

record Env =
  getBooking :: "string \<Rightarrow> string \<Rightarrow> error + BookingWithAssets option"
  db_asset :: "Asset list"
  db_asset_rejects :: "error option"
  db_organization :: "Organization list"
  db_organization_rejects :: "error option"
  organization_settles_first :: bool
  getQrCodeMaps :: "QrCodeMapsArgs \<Rightarrow> error + (string \<rightharpoonup> string)"

definition asset_findMany :: "Env \<Rightarrow> AssetFindManyArgs \<Rightarrow> error + Asset list" where
  "asset_findMany env args =
     (case db_asset_rejects env of
        Some e \<Rightarrow> Inl e
      | None \<Rightarrow> Inr
          (map (\<lambda>a. a\<lparr>asset_bookings :=
                        filter (matches_where (include_bookings_where args)) (asset_bookings a)\<rparr>)
               (filter (\<lambda>a. asset_id a \<in> set (where_id_in args)) (db_asset env))))"

definition organization_findUnique ::
  "Env \<Rightarrow> OrganizationFindUniqueArgs \<Rightarrow> error + Organization option" where
  "organization_findUnique env args =
     (case db_organization_rejects env of
        Some e \<Rightarrow> Inl e
      | None \<Rightarrow> Inr (find (\<lambda>orga. organization_id orga = where_id args) (db_organization env)))"

definition promise_all :: "Env \<Rightarrow> error + 'a \<Rightarrow> error + 'b \<Rightarrow> error + ('a \<times> 'b)" where
  "promise_all env p q =
     (case (p, q) of
        (Inr x, Inr y) \<Rightarrow> Inr (x, y)
      | (Inl e, Inr _) \<Rightarrow> Inl e
      | (Inr _, Inl e) \<Rightarrow> Inl e
      | (Inl e1, Inl e2) \<Rightarrow> Inl (if organization_settles_first env then e2 else e1))"

subsection \<open>fetchAllPdfRelatedData\<close>

definition asset_query :: "BookingWithAssets \<Rightarrow> AssetFindManyArgs" where
  "asset_query b =
     \<lparr>where_id_in = booking_assets b,
      include_category = True,
      include_custody = True,
      include_qrCodes = True,
      include_location = True,
      include_bookings_where = bookings_where b\<rparr>"

definition organization_query :: "string \<Rightarrow> OrganizationFindUniqueArgs" where
  "organization_query organizationId =
     \<lparr>where_id = organizationId,
      select_imageId = True, select_name = True, select_id = True, select_image = True\<rparr>"

definition not_authorized :: error where
  "not_authorized = ShelfError
     \<lparr>cause = None,
      message = ''You are not authorized to view this booking'',
      status = 403,
      label = ''Booking'',
      shouldBeCaptured = False\<rparr>"

text \<open>The result is the list of calls made and what the promise settles with.\<close>

definition fetchAllPdfRelatedData ::
  "Env \<Rightarrow> string \<Rightarrow> string \<Rightarrow> string \<Rightarrow> OrganizationRoles option
     \<Rightarrow> db_call list \<times> (error + PdfDbResult)" where
  "fetchAllPdfRelatedData env bookingId organizationId userId role =
     (case getBooking env bookingId organizationId of
        Inl e \<Rightarrow> ([GetBooking bookingId organizationId], Inl e)
      | Inr None \<Rightarrow> ([GetBooking bookingId organizationId], Inl (Error ''Booking not found''))
      | Inr (Some b) \<Rightarrow>
          if role = Some SELF_SERVICE \<and> booking_custodianUserId b \<noteq> Some userId
          then ([GetBooking bookingId organizationId], Inl not_authorized)
          else
            (let queries = [GetBooking bookingId organizationId,
                            AssetFindMany (asset_query b),
                            OrganizationFindUnique (organization_query organizationId)]
             in (case promise_all env (asset_findMany env (asset_query b))
                        (organization_findUnique env (organization_query organizationId)) of
                   Inl e \<Rightarrow> (queries, Inl e)
                 | Inr (as, orga) \<Rightarrow>
                     (let qr = \<lparr>qr_assets = as, qr_userId = userId,
                                qr_organizationId = organizationId, qr_size = ''small''\<rparr>
                      in (case getQrCodeMaps env qr of
                            Inl e \<Rightarrow> (queries @ [GetQrCodeMaps qr], Inl e)
                          | Inr m \<Rightarrow>
                              (queries @ [GetQrCodeMaps qr],
                               Inr \<lparr>booking = b, assets = as, organization = orga,
                                    assetIdToQrCodeMap = m\<rparr>))))))"

subsection \<open>getBookingAssetsCustomHeader\<close>

text \<open>
  \<open>blob.toString("base64")\<close> of a Node \<open>Buffer\<close>: the standard base64 encoding with
  padding. Three bytes give four characters of the alphabet; one or two bytes left over
  give two or three characters and \<open>=\<close> up to four.
\<close>

definition base64_alphabet :: string where
  "base64_alphabet = ''ABCDEFGHIJKLMNOPQRSTUVWXYZabcdefghijklmnopqrstuvwxyz0123456789+/''"

definition base64_char :: "nat \<Rightarrow> char" where
  "base64_char i = base64_alphabet ! i"

fun base64 :: "byte list \<Rightarrow> string" where
  "base64 [] = []"
| "base64 [a] =
     [base64_char (unat a div 4), base64_char ((unat a mod 4) * 16), CHR ''='', CHR ''='']"
| "base64 [a, b] =
     [base64_char (unat a div 4),
      base64_char ((unat a mod 4) * 16 + unat b div 16),
      base64_char ((unat b mod 16) * 4),
      CHR ''='']"
| "base64 (a # b # c # rest) =
     [base64_char (unat a div 4),
      base64_char ((unat a mod 4) * 16 + unat b div 16),
      base64_char ((unat b mod 16) * 4 + unat c div 64),
      base64_char (unat c mod 64)] @ base64 rest"

text \<open>\<open>v || ""\<close> on an optional string: undefined and the empty string both give \<open>""\<close>.\<close>

definition or_empty :: "string option \<Rightarrow> string" where
  "or_empty v = (case v of None \<Rightarrow> [] | Some s \<Rightarrow> if s = [] then [] else s)"

text \<open>The three literal parts of the template, around \<open>${base64Image}\<close> and the name.\<close>

definition header_before_src :: string where
  \<open>header_before_src =
     ''\<newline>'' @
     ''        <style>\<newline>'' @
     ''            .header {\<newline>'' @
     ''                font-size: 10px;\<newline>'' @
     ''                text-align: right;\<newline>'' @
     ''                width: 100%;\<newline>'' @
     ''                padding: 0 20px;\<newline>'' @
     ''                display: flex;\<newline>'' @
     ''                justify-content: space-between;\<newline>'' @
     ''                align-items: center;\<newline>'' @
     ''                box-sizing: border-box;\<newline>'' @
     ''                margin-bottom:30px;\<newline>'' @
     ''            }\<newline>'' @
     ''            .header img {\<newline>'' @
     ''                height: 40px;\<newline>'' @
     ''                width: 40px;\<newline>'' @
     ''                object-fit: cover\<newline>'' @
     ''            }\<newline>'' @
     ''            .header .text {\<newline>'' @
     ''                text-align: right;\<newline>'' @
     ''                color: rgba(0, 0, 0, 0.6);\<newline>'' @
     ''            }\<newline>'' @
     ''        </style>\<newline>'' @
     ''        <div class="header">\<newline>'' @
     ''            <img src="''\<close>

definition header_before_name :: string where
  \<open>header_before_name =
     ''" alt="logo">\<newline>'' @
     ''            <span class="text">''\<close>

definition header_after_name :: string where
  \<open>header_after_name =
     '' | <span class="date"></span> | Page <span class="pageNumber"></span>/<span class="totalPages"></span></span>\<newline>'' @
     ''        </div>\<newline>'' @
     ''    ''\<close>

text \<open>
  \<open>organization?.image?.blob\<close>: undefined when the organization or its image is null.
  A \<open>Buffer\<close> is an object, so it is truthy even when it holds no byte.
\<close>

definition orgImageBlob :: "PdfDbResult \<Rightarrow> byte list option" where
  "orgImageBlob r =
     (case organization r of
        None \<Rightarrow> None
      | Some orga \<Rightarrow> (case organization_image orga of None \<Rightarrow> None | Some i \<Rightarrow> Some (image_blob i)))"

definition base64Image :: "PdfDbResult \<Rightarrow> string" where
  "base64Image r =
     (case orgImageBlob r of
        Some blob \<Rightarrow> ''data:image/png;base64,'' @ base64 blob
      | None \<Rightarrow> [])"

definition getBookingAssetsCustomHeader :: "PdfDbResult \<Rightarrow> string" where
  "getBookingAssetsCustomHeader r =
     header_before_src @ base64Image r @ header_before_name @
     or_empty (Some (booking_name (booking r))) @ header_after_name"

text \<open>
  Reading the fragment back: the value of the \<open>src\<close> attribute of its first \<open>img\<close> tag
  is the text between the first \<open><img src="\<close> and the next double quote.
\<close>

fun after_marker :: "string \<Rightarrow> string \<Rightarrow> string option" where
  "after_marker m [] = (if m = [] then Some [] else None)"
| "after_marker m (c # cs) =
     (if prefix m (c # cs) then Some (drop (length m) (c # cs)) else after_marker m cs)"

definition img_src :: "string \<Rightarrow> string option" where
  \<open>img_src html =
     map_option (takeWhile (\<lambda>c. c \<noteq> CHR 0x22)) (after_marker ''<img src="'' html)\<close>

subsection \<open>generatePdfContent\<close>

record PdfOptions =
  format :: string
  displayHeaderFooter :: bool
  headerTemplate :: string
  margin :: "string \<rightharpoonup> string"

text \<open>The calls made on the browser library, in order.\<close>

datatype browser_call =
    Launch
  | NewPage
  | SetContent string string
  | Pdf PdfOptions
  | Close

text \<open>The browser library, by what each of its calls does: \<open>None\<close> is a call that resolves.\<close>

record Browser =
  launch_rejects :: "error option"
  newPage_rejects :: "error option"
  setContent :: "string \<Rightarrow> error option"
  pdf :: "PdfOptions \<Rightarrow> error + byte list"
  close_rejects :: "error option"

definition default_margin :: "string \<rightharpoonup> string" where
  "default_margin =
     [''top'' \<mapsto> ''80px'', ''bottom'' \<mapsto> ''30px'', ''left'' \<mapsto> ''20px'', ''right'' \<mapsto> ''20px'']"

text \<open>Lines 188 to 197; the spread of \<open>styles || {}\<close> comes last, so its keys win.\<close>

definition pdf_options :: "string option \<Rightarrow> (string \<rightharpoonup> string) option \<Rightarrow> PdfOptions" where
  "pdf_options headerTemplate_arg styles =
     \<lparr>format = ''A4'',
      displayHeaderFooter = True,
      headerTemplate = or_empty headerTemplate_arg,
      margin = default_margin ++ (case styles of None \<Rightarrow> Map.empty | Some st \<Rightarrow> st)\<rparr>"

definition generatePdfContent ::
  "Browser \<Rightarrow> string \<Rightarrow> string option \<Rightarrow> (string \<rightharpoonup> string) option
     \<Rightarrow> browser_call list \<times> (error + byte list)" where
  "generatePdfContent br htmlContent headerTemplate_arg styles =
     (case launch_rejects br of
        Some e \<Rightarrow> ([Launch], Inl e)
      | None \<Rightarrow>
     (case newPage_rejects br of
        Some e \<Rightarrow> ([Launch, NewPage], Inl e)
      | None \<Rightarrow>
     (let loaded = [Launch, NewPage, SetContent htmlContent ''networkidle0''] in
     (case setContent br htmlContent of
        Some e \<Rightarrow> (loaded, Inl e)
      | None \<Rightarrow>
     (let opts = pdf_options headerTemplate_arg styles in
     (case pdf br opts of
        Inl e \<Rightarrow> (loaded @ [Pdf opts], Inl e)
      | Inr pdfBuffer \<Rightarrow>
     (case close_rejects br of
        Some e \<Rightarrow> (loaded @ [Pdf opts, Close], Inl e)
      | None \<Rightarrow> (loaded @ [Pdf opts, Close], Inr pdfBuffer))))))))"

section \<open>The Dialog component\<close>

text \<open>
  What a click handler does: nothing, or one call of \<open>navigate\<close> with the previous
  route, which is undefined when the route has fewer than two matches.
\<close>

datatype 'r effect = Navigate "'r option"

record MouseEvent =
  event_target :: nat
  event_currentTarget :: nat

datatype 'r attr =
    Str string
  | Bool bool
  | To "'r option"
  | OnClick "MouseEvent \<Rightarrow> 'r effect list"

datatype 'r node = Null | Element string "(string \<times> 'r attr) list" "'r node list"

definition prevRoute :: "'r list \<Rightarrow> 'r option" where
  "prevRoute matches =
     (if 2 \<le> length matches then Some (matches ! (length matches - 2)) else None)"

definition handleBackdropClose :: "'r option \<Rightarrow> MouseEvent \<Rightarrow> 'r effect list" where
  "handleBackdropClose prev e =
     (if event_target e \<noteq> event_currentTarget e then [] else [Navigate prev])"

definition Dialog :: "'r list \<Rightarrow> 'r node \<Rightarrow> bool \<Rightarrow> 'r node" where
  "Dialog matches children open_arg =
     (if open_arg then
        Element ''div''
          [(''className'', Str ''dialog-backdrop''),
           (''onClick'', OnClick (handleBackdropClose (prevRoute matches)))]
          [Element ''dialog''
             [(''className'', Str ''dialog''), (''open'', Bool True)]
             [Element ''Button''
                [(''to'', To (prevRoute matches)),
                 (''variant'', Str ''link''),
                 (''className'',
                  Str ''absolute right-4 top-[16px] leading-none text-gray-500 md:right-6 md:top-[26px]'')]
                [Element ''XIcon'' [] []],
              children]]
      else Null)"

text \<open>The click handlers installed anywhere in a rendered tree.\<close>

fun onClick_handlers :: "'r node \<Rightarrow> (MouseEvent \<Rightarrow> 'r effect list) list" where
  "onClick_handlers Null = []"
| "onClick_handlers (Element tag props children) =
     concat (map (\<lambda>kv. case snd kv of OnClick h \<Rightarrow> [h] | _ \<Rightarrow> []) props) @
     concat (map onClick_handlers children)"

section \<open>Concrete inputs\<close>

text \<open>
  The scenario of the specification: booking \<open>b1\<close> runs from day 1 to day 5 and holds
  asset \<open>a1\<close>, which is also in \<open>b2\<close>, reserved from day 3 to day 10. The asset has two
  more bookings: a draft inside the window and a reserved one after it.
\<close>

definition booking_b1 :: BookingWithAssets where
  "booking_b1 =
     \<lparr>booking_id = ''b1'', booking_name = ''Shoot'', booking_status = ''RESERVED'',
      booking_from = Some 1, booking_to = Some 5, booking_custodianUserId = Some ''u2'',
      booking_organizationId = ''o1'', booking_assets = [''a1''],
      booking_custodianUser = Some ''u2''\<rparr>"

definition booking_b2 :: Booking where
  "booking_b2 =
     \<lparr>booking_id = ''b2'', booking_name = ''Fair'', booking_status = ''RESERVED'',
      booking_from = Some 3, booking_to = Some 10, booking_custodianUserId = Some ''u3'',
      booking_organizationId = ''o1''\<rparr>"

definition booking_draft :: Booking where
  "booking_draft =
     \<lparr>booking_id = ''b3'', booking_name = ''Plan'', booking_status = ''DRAFT'',
      booking_from = Some 2, booking_to = Some 4, booking_custodianUserId = None,
      booking_organizationId = ''o1''\<rparr>"

definition booking_later :: Booking where
  "booking_later =
     \<lparr>booking_id = ''b4'', booking_name = ''Tour'', booking_status = ''ONGOING'',
      booking_from = Some 6, booking_to = Some 8, booking_custodianUserId = None,
      booking_organizationId = ''o1''\<rparr>"

text \<open>A reserved booking whose start, day 9, is later than its end, day 2.\<close>

definition booking_reversed :: Booking where
  "booking_reversed =
     \<lparr>booking_id = ''b5'', booking_name = ''Swap'', booking_status = ''RESERVED'',
      booking_from = Some 9, booking_to = Some 2, booking_custodianUserId = None,
      booking_organizationId = ''o1''\<rparr>"

definition asset_with :: "Booking list \<Rightarrow> Asset" where
  "asset_with bs =
     \<lparr>asset_id = ''a1'', asset_title = ''Camera'', asset_category = None,
      asset_location = None, asset_custody = None, asset_qrCodes = [],
      asset_bookings = bs\<rparr>"

definition org_o1 :: Organization where
  "org_o1 =
     \<lparr>organization_id = ''o1'', organization_name = ''Studio'',
      organization_imageId = Some ''i1'',
      organization_image = Some \<lparr>image_id = ''i1'', image_blob = [0x4D, 0x61, 0x6E]\<rparr>\<rparr>"

text \<open>An environment whose every call resolves: the booking table holds the given booking.\<close>

definition env_with :: "BookingWithAssets \<Rightarrow> Booking list \<Rightarrow> Env" where
  "env_with b bs =
     \<lparr>getBooking = (\<lambda>i orgId.
        if i = booking_id b \<and> orgId = booking_organizationId b then Inr (Some b) else Inr None),
      db_asset = [asset_with bs],
      db_asset_rejects = None,
      db_organization = [org_o1],
      db_organization_rejects = None,
      organization_settles_first = False,
      getQrCodeMaps = (\<lambda>args. Inr Map.empty)\<rparr>"

definition result_with :: "BookingWithAssets \<Rightarrow> Booking list \<Rightarrow> PdfDbResult" where
  "result_with b bs =
     \<lparr>booking = b, assets = [asset_with bs], organization = Some org_o1,
      assetIdToQrCodeMap = Map.empty\<rparr>"

text \<open>A booking whose start is unset, and a browser whose launch and new page resolve.\<close>

definition booking_open :: BookingWithAssets where
  "booking_open =
     \<lparr>booking_id = ''b6'', booking_name = '''', booking_status = ''DRAFT'',
      booking_from = None, booking_to = Some 5, booking_custodianUserId = Some ''u1'',
      booking_organizationId = ''o1'', booking_assets = [''a1''],
      booking_custodianUser = Some ''u1''\<rparr>"

definition browser_with :: "error option \<Rightarrow> error + byte list \<Rightarrow> Browser" where
  "browser_with content_outcome pdf_outcome =
     \<lparr>launch_rejects = None, newPage_rejects = None,
      setContent = (\<lambda>html. content_outcome),
      pdf = (\<lambda>opts. pdf_outcome),
      close_rejects = None\<rparr>"

section \<open>Properties of fetchAllPdfRelatedData\<close>

subsection \<open>What the filter admits\<close>

lemma matches_overlap_OR:
  "booking_from other = Some ofrom \<Longrightarrow> booking_to other = Some oto \<Longrightarrow>
   list_ex (\<lambda>c. matches_cond c other) (overlap_OR bfrom bto) =
     ((ofrom \<le> bto \<and> oto \<ge> bfrom) \<or> (ofrom \<ge> bfrom \<and> oto \<le> bto))"
  by (simp add: overlap_OR_def matches_cond_def)

lemma matches_overlap_OR_unset:
  "booking_from other = None \<or> booking_to other = None \<Longrightarrow>
   \<not> list_ex (\<lambda>c. matches_cond c other) (overlap_OR bfrom bto)"
  by (auto simp add: overlap_OR_def matches_cond_def)

lemma bookings_where_set:
  "booking_from b = Some bfrom \<Longrightarrow> booking_to b = Some bto \<Longrightarrow>
   matches_where (bookings_where b) other =
     (booking_status other \<in> {''RESERVED'', ''ONGOING'', ''OVERDUE''} \<and>
      list_ex (\<lambda>c. matches_cond c other) (overlap_OR bfrom bto))"
  by (simp add: bookings_where_def matches_where_def)

lemma bookings_where_unset:
  "booking_from b = None \<or> booking_to b = None \<Longrightarrow> bookings_where b = empty_where"
  by (auto simp add: bookings_where_def split: option.splits)

lemma matches_empty_where: "matches_where empty_where other"
  by (simp add: matches_where_def empty_where_def)

subsection \<open>What a call issues and returns\<close>

lemma fetch_issued_query:
  assumes "getBooking env bookingId organizationId = Inr (Some b)"
    and "AssetFindMany q \<in> set (fst (fetchAllPdfRelatedData env bookingId organizationId userId role))"
  shows "q = asset_query b"
  using assms
  by (auto simp add: fetchAllPdfRelatedData_def Let_def split: sum.splits if_splits prod.splits)

lemma fetch_resolved:
  assumes "getBooking env bookingId organizationId = Inr (Some b)"
    and "snd (fetchAllPdfRelatedData env bookingId organizationId userId role) = Inr res"
  shows "booking res = b \<and>
         assets res = map (\<lambda>a. a\<lparr>asset_bookings :=
                        filter (matches_where (bookings_where b)) (asset_bookings a)\<rparr>)
               (filter (\<lambda>a. asset_id a \<in> set (booking_assets b)) (db_asset env))"
  using assms
  by (auto simp add: fetchAllPdfRelatedData_def Let_def promise_all_def asset_findMany_def
        asset_query_def
      split: sum.splits option.splits if_splits prod.splits)

lemma fetch_env_with:
  "booking_custodianUserId b = Some userId \<or> role \<noteq> Some SELF_SERVICE \<Longrightarrow>
   booking_assets b = [''a1''] \<Longrightarrow> booking_organizationId b = ''o1'' \<Longrightarrow>
   snd (fetchAllPdfRelatedData (env_with b bs) (booking_id b) (booking_organizationId b) userId role) =
     Inr (result_with b (filter (matches_where (bookings_where b)) bs))"
  by (auto simp add: fetchAllPdfRelatedData_def env_with_def result_with_def asset_with_def
        promise_all_def asset_findMany_def organization_findUnique_def asset_query_def
        organization_query_def org_o1_def Let_def)

subsection \<open>Authorization and the missing booking\<close>

text \<open>
  C1. When the role is \<open>SELF_SERVICE\<close> and the fetched booking's \<open>custodianUserId\<close> is
  not the caller's \<open>userId\<close>, the call rejects with the structured error of status 403,
  label "Booking" and \<open>shouldBeCaptured\<close> false, and \<open>getBooking\<close> is the only call it
  has made: neither the asset query nor the organization query is issued.
\<close>

theorem self_service_not_custodian_forbidden:
  assumes "getBooking env bookingId organizationId = Inr (Some b)"
    and "booking_custodianUserId b \<noteq> Some userId"
  shows "fetchAllPdfRelatedData env bookingId organizationId userId (Some SELF_SERVICE) =
           ([GetBooking bookingId organizationId],
            Inl (ShelfError \<lparr>cause = None,
                             message = ''You are not authorized to view this booking'',
                             status = 403, label = ''Booking'', shouldBeCaptured = False\<rparr>))"
  using assms by (simp add: fetchAllPdfRelatedData_def not_authorized_def)

theorem self_service_not_custodian_forbidden_witness:
  "fetchAllPdfRelatedData (env_with booking_b1 []) ''b1'' ''o1'' ''u1'' (Some SELF_SERVICE) =
           ([GetBooking ''b1'' ''o1''],
            Inl (ShelfError \<lparr>cause = None,
                             message = ''You are not authorized to view this booking'',
                             status = 403, label = ''Booking'', shouldBeCaptured = False\<rparr>))"
proof -
  have g: "getBooking (env_with booking_b1 []) ''b1'' ''o1'' = Inr (Some booking_b1)"
    by (simp add: env_with_def booking_b1_def)
  have c: "booking_custodianUserId booking_b1 \<noteq> Some ''u1''"
    by (simp add: booking_b1_def)
  show ?thesis
    using self_service_not_custodian_forbidden [OF g c] .
qed

text \<open>
  C9. When \<open>getBooking\<close> finds no booking for the id and the organization, the call
  rejects with the plain \<open>Error\<close> "Booking not found", not the structured error, and
  nothing else has been fetched.
\<close>

theorem missing_booking_not_found:
  assumes "getBooking env bookingId organizationId = Inr None"
  shows "fetchAllPdfRelatedData env bookingId organizationId userId role =
           ([GetBooking bookingId organizationId], Inl (Error ''Booking not found''))"
  using assms by (simp add: fetchAllPdfRelatedData_def)

theorem missing_booking_not_found_witness:
  "fetchAllPdfRelatedData (env_with booking_b1 []) ''b7'' ''o1'' ''u1'' None =
           ([GetBooking ''b7'' ''o1''], Inl (Error ''Booking not found''))"
proof -
  have g: "getBooking (env_with booking_b1 []) ''b7'' ''o1'' = Inr None"
    by (simp add: env_with_def booking_b1_def)
  show ?thesis
    using missing_booking_not_found [OF g] .
qed

subsection \<open>The overlap test\<close>

text \<open>
  C2. For two intervals with \<open>from1 \<le> to1\<close> and \<open>from2 \<le> to2\<close>, the \<open>OR\<close> of the filter
  built for the window \<open>[from1, to1]\<close> holds of a booking over \<open>[from2, to2]\<close> exactly when
  \<open>(from2 \<le> to1 \<and> to2 \<ge> from1) \<or> (from2 \<ge> from1 \<and> to2 \<le> to1)\<close>, and that disjunction
  is equivalent to the single test \<open>from1 \<le> to2 \<and> to1 \<ge> from2\<close>.
\<close>

theorem overlap_filter_is_intersection:
  assumes "from1 \<le> to1" and "from2 \<le> to2"
    and "booking_from other = Some from2" and "booking_to other = Some to2"
  shows "list_ex (\<lambda>c. matches_cond c other) (overlap_OR from1 to1) =
           ((from2 \<le> to1 \<and> to2 \<ge> from1) \<or> (from2 \<ge> from1 \<and> to2 \<le> to1))
         \<and> ((from2 \<le> to1 \<and> to2 \<ge> from1) \<or> (from2 \<ge> from1 \<and> to2 \<le> to1)) =
           (from1 \<le> to2 \<and> to1 \<ge> from2)"
  using assms by (auto simp add: matches_overlap_OR)

theorem overlap_filter_is_intersection_witness:
  "list_ex (\<lambda>c. matches_cond c booking_b2) (overlap_OR 1 5) =
           (((3::int) \<le> 5 \<and> (10::int) \<ge> 1) \<or> ((3::int) \<ge> 1 \<and> (10::int) \<le> 5))
         \<and> (((3::int) \<le> 5 \<and> (10::int) \<ge> 1) \<or> ((3::int) \<ge> 1 \<and> (10::int) \<le> 5)) =
           ((1::int) \<le> 10 \<and> (5::int) \<ge> 3)"
proof -
  have a: "(1::int) \<le> 5" and b: "(3::int) \<le> 10" by simp_all
  have f: "booking_from booking_b2 = Some 3" and t: "booking_to booking_b2 = Some 10"
    by (simp_all add: booking_b2_def)
  show ?thesis
    using overlap_filter_is_intersection [OF a b f t] .
qed

subsection \<open>The filter when the window is set\<close>

lemma admits_two_branches:
  assumes "booking_from b = Some bfrom" and "booking_to b = Some bto"
  shows "matches_where (bookings_where b) other =
     (booking_status other \<in> {''RESERVED'', ''ONGOING'', ''OVERDUE''} \<and>
      (case (booking_from other, booking_to other) of
         (Some ofrom, Some oto) \<Rightarrow>
            (ofrom \<le> bto \<and> oto \<ge> bfrom) \<or> (ofrom \<ge> bfrom \<and> oto \<le> bto)
       | _ \<Rightarrow> False))"
  using assms matches_overlap_OR_unset [of other bfrom bto]
  by (auto simp add: bookings_where_set matches_overlap_OR split: option.splits)

lemma admits_in_order:
  assumes "booking_from b = Some bfrom" and "booking_to b = Some bto" and "ends_in_order other"
  shows "matches_where (bookings_where b) other = spec_admits bfrom bto other"
proof (cases "booking_from other")
  case None
  then show ?thesis
    using assms matches_overlap_OR_unset [of other bfrom bto]
    by (simp add: bookings_where_set spec_admits_def spec_intersects_def)
next
  case (Some ofrom)
  note f = this
  show ?thesis
  proof (cases "booking_to other")
    case None
    then show ?thesis
      using assms matches_overlap_OR_unset [of other bfrom bto]
      by (simp add: bookings_where_set spec_admits_def spec_intersects_def f)
  next
    case (Some oto)
    with f assms(3) have "ofrom \<le> oto"
      by (simp add: ends_in_order_def)
    then show ?thesis
      using assms(1,2) f Some
      by (auto simp add: bookings_where_set spec_admits_def spec_intersects_def
          matches_overlap_OR)
  qed
qed

lemma filter_admits:
  assumes "booking_from b = Some bfrom" and "booking_to b = Some bto"
    and "list_all ends_in_order bs"
  shows "filter (matches_where (bookings_where b)) bs = filter (spec_admits bfrom bto) bs"
  using assms by (intro filter_cong) (auto simp add: list_all_iff admits_in_order)

lemma b1_fields:
  "booking_id booking_b1 = ''b1''" "booking_organizationId booking_b1 = ''o1''"
  "booking_assets booking_b1 = [''a1'']"
  "booking_from booking_b1 = Some 1" "booking_to booking_b1 = Some 5"
  by (simp_all add: booking_b1_def)

lemma b1_admits:
  "matches_where (bookings_where booking_b1) booking_b2"
  "\<not> matches_where (bookings_where booking_b1) booking_draft"
  "\<not> matches_where (bookings_where booking_b1) booking_later"
  "matches_where (bookings_where booking_b1) booking_reversed"
  by (simp_all add: matches_where_def bookings_where_def booking_b1_def booking_b2_def
      booking_draft_def booking_later_def booking_reversed_def overlap_OR_def matches_cond_def)

text \<open>
  C3, as the code has it. When the fetched booking has both \<open>from\<close> and \<open>to\<close> set, the
  filter of the asset query admits exactly the bookings whose status is one of
  \<open>RESERVED\<close>, \<open>ONGOING\<close>, \<open>OVERDUE\<close>, whose two ends are set, and which pass one of the
  two branches of the \<open>OR\<close>. For every booking whose start is not later than its end that
  is inclusive intersection with the window, so a returned asset carries exactly the
  bookings with such a status that meet the window; the others are left out.
\<close>

theorem bookings_filter_admits:
  assumes "getBooking env bookingId organizationId = Inr (Some b)"
    and "booking_from b = Some bfrom" and "booking_to b = Some bto"
  shows "(\<forall>q other.
            AssetFindMany q \<in>
              set (fst (fetchAllPdfRelatedData env bookingId organizationId userId role))
            \<longrightarrow> matches_where (include_bookings_where q) (other :: Booking) =
                 (booking_status other \<in> {''RESERVED'', ''ONGOING'', ''OVERDUE''} \<and>
                  (case (booking_from other, booking_to other) of
                     (Some ofrom, Some oto) \<Rightarrow>
                        (ofrom \<le> bto \<and> oto \<ge> bfrom) \<or> (ofrom \<ge> bfrom \<and> oto \<le> bto)
                   | _ \<Rightarrow> False)))
       \<and> (\<forall>q other.
            AssetFindMany q \<in>
              set (fst (fetchAllPdfRelatedData env bookingId organizationId userId role))
            \<longrightarrow> ends_in_order other
            \<longrightarrow> matches_where (include_bookings_where q) (other :: Booking) =
                 spec_admits bfrom bto other)
       \<and> (\<forall>res.
            snd (fetchAllPdfRelatedData env bookingId organizationId userId role) = Inr res
            \<longrightarrow> list_all (\<lambda>a. list_all ends_in_order (asset_bookings a)) (db_asset env)
            \<longrightarrow> assets res =
                 map (\<lambda>a. a\<lparr>asset_bookings :=
                             filter (spec_admits bfrom bto) (asset_bookings a)\<rparr>)
                   (filter (\<lambda>a. asset_id a \<in> set (booking_assets b)) (db_asset env)))"
proof (intro conjI allI impI)
  fix q and other :: Booking
  assume "AssetFindMany q \<in>
            set (fst (fetchAllPdfRelatedData env bookingId organizationId userId role))"
  then have "q = asset_query b"
    using fetch_issued_query [OF assms(1)] by blast
  then show "matches_where (include_bookings_where q) other =
                 (booking_status other \<in> {''RESERVED'', ''ONGOING'', ''OVERDUE''} \<and>
                  (case (booking_from other, booking_to other) of
                     (Some ofrom, Some oto) \<Rightarrow>
                        (ofrom \<le> bto \<and> oto \<ge> bfrom) \<or> (ofrom \<ge> bfrom \<and> oto \<le> bto)
                   | _ \<Rightarrow> False))"
    using admits_two_branches [OF assms(2,3), of other] by (simp add: asset_query_def)
next
  fix q and other :: Booking
  assume "AssetFindMany q \<in>
            set (fst (fetchAllPdfRelatedData env bookingId organizationId userId role))"
    and o: "ends_in_order other"
  then have "q = asset_query b"
    using fetch_issued_query [OF assms(1)] by blast
  then show "matches_where (include_bookings_where q) other = spec_admits bfrom bto other"
    using admits_in_order [OF assms(2,3) o] by (simp add: asset_query_def)
next
  fix res
  assume r: "snd (fetchAllPdfRelatedData env bookingId organizationId userId role) = Inr res"
    and wf: "list_all (\<lambda>a. list_all ends_in_order (asset_bookings a)) (db_asset env)"
  have "assets res =
          map (\<lambda>a. a\<lparr>asset_bookings :=
                      filter (matches_where (bookings_where b)) (asset_bookings a)\<rparr>)
            (filter (\<lambda>a. asset_id a \<in> set (booking_assets b)) (db_asset env))"
    using fetch_resolved [OF assms(1) r] by simp
  also have "\<dots> =
          map (\<lambda>a. a\<lparr>asset_bookings := filter (spec_admits bfrom bto) (asset_bookings a)\<rparr>)
            (filter (\<lambda>a. asset_id a \<in> set (booking_assets b)) (db_asset env))"
  proof (intro map_cong refl)
    fix a
    assume "a \<in> set (filter (\<lambda>a. asset_id a \<in> set (booking_assets b)) (db_asset env))"
    with wf have "list_all ends_in_order (asset_bookings a)"
      by (auto simp add: list_all_iff)
    then have "filter (matches_where (bookings_where b)) (asset_bookings a) =
               filter (spec_admits bfrom bto) (asset_bookings a)"
      by (rule filter_admits [OF assms(2,3)])
    then show "a\<lparr>asset_bookings :=
                   filter (matches_where (bookings_where b)) (asset_bookings a)\<rparr> =
               a\<lparr>asset_bookings := filter (spec_admits bfrom bto) (asset_bookings a)\<rparr>"
      by (rule arg_cong)
  qed
  finally show "assets res =
          map (\<lambda>a. a\<lparr>asset_bookings := filter (spec_admits bfrom bto) (asset_bookings a)\<rparr>)
            (filter (\<lambda>a. asset_id a \<in> set (booking_assets b)) (db_asset env))" .
qed

theorem bookings_filter_admits_witness:
  "AssetFindMany (asset_query booking_b1) \<in>
     set (fst (fetchAllPdfRelatedData
                 (env_with booking_b1 [booking_b2, booking_draft, booking_later])
                 ''b1'' ''o1'' ''u1'' None))
   \<and> ends_in_order booking_b2
   \<and> matches_where (include_bookings_where (asset_query booking_b1)) booking_b2 =
       spec_admits 1 5 booking_b2
   \<and> snd (fetchAllPdfRelatedData
            (env_with booking_b1 [booking_b2, booking_draft, booking_later])
            ''b1'' ''o1'' ''u1'' None) = Inr (result_with booking_b1 [booking_b2])
   \<and> list_all (\<lambda>a. list_all ends_in_order (asset_bookings a))
        (db_asset (env_with booking_b1 [booking_b2, booking_draft, booking_later]))
   \<and> assets (result_with booking_b1 [booking_b2]) =
        map (\<lambda>a. a\<lparr>asset_bookings := filter (spec_admits 1 5) (asset_bookings a)\<rparr>)
          (filter (\<lambda>a. asset_id a \<in> set (booking_assets booking_b1))
             (db_asset (env_with booking_b1 [booking_b2, booking_draft, booking_later])))"
proof -
  let ?env = "env_with booking_b1 [booking_b2, booking_draft, booking_later]"
  have g: "getBooking ?env ''b1'' ''o1'' = Inr (Some booking_b1)"
    by (simp add: env_with_def b1_fields)
  have q: "AssetFindMany (asset_query booking_b1) \<in>
             set (fst (fetchAllPdfRelatedData ?env ''b1'' ''o1'' ''u1'' None))"
    using g by (simp add: fetchAllPdfRelatedData_def Let_def split: sum.splits prod.splits)
  have o: "ends_in_order booking_b2"
    by (simp add: ends_in_order_def booking_b2_def)
  have r: "snd (fetchAllPdfRelatedData ?env ''b1'' ''o1'' ''u1'' None) =
             Inr (result_with booking_b1 [booking_b2])"
    using fetch_env_with [of booking_b1 "''u1''" None "[booking_b2, booking_draft, booking_later]"]
    by (simp add: b1_fields b1_admits)
  have wf: "list_all (\<lambda>a. list_all ends_in_order (asset_bookings a)) (db_asset ?env)"
    by (simp add: env_with_def asset_with_def ends_in_order_def booking_b2_def
        booking_draft_def booking_later_def)
  show ?thesis
    using bookings_filter_admits [OF g b1_fields(4,5), of "''u1''" None] q o r wf by blast
qed

text \<open>
  The claim as the specification words it fails on a booking stored with its start after
  its end: for the window from day 1 to day 5, the reserved booking from day 9 to day 2
  passes the second branch of the \<open>OR\<close> and is returned with the asset, though it does
  not satisfy the intersection test.
\<close>

theorem reversed_booking_admitted:
  "snd (fetchAllPdfRelatedData (env_with booking_b1 [booking_reversed])
          ''b1'' ''o1'' ''u1'' None) = Inr (result_with booking_b1 [booking_reversed])
   \<and> booking_from booking_b1 = Some 1 \<and> booking_to booking_b1 = Some 5
   \<and> booking_from booking_reversed = Some 9 \<and> booking_to booking_reversed = Some 2
   \<and> matches_where (bookings_where booking_b1) booking_reversed
   \<and> \<not> spec_admits 1 5 booking_reversed"
proof -
  have "snd (fetchAllPdfRelatedData (env_with booking_b1 [booking_reversed])
               ''b1'' ''o1'' ''u1'' None) = Inr (result_with booking_b1 [booking_reversed])"
    using fetch_env_with [of booking_b1 "''u1''" None "[booking_reversed]"]
    by (simp add: b1_fields b1_admits)
  moreover have "\<not> spec_admits 1 5 booking_reversed"
    by (simp add: spec_admits_def spec_intersects_def booking_reversed_def)
  ultimately show ?thesis
    by (simp add: b1_fields b1_admits) (simp add: booking_reversed_def)
qed

subsection \<open>The filter when the window is not set\<close>

text \<open>
  C4. When the fetched booking's \<open>from\<close> and \<open>to\<close> are not both set, the filter of the
  asset query is the empty condition, which every booking satisfies whatever its dates
  and status, and each returned asset carries all of its bookings.
\<close>

theorem unset_window_no_filter:
  assumes "getBooking env bookingId organizationId = Inr (Some b)"
    and "booking_from b = None \<or> booking_to b = None"
  shows "(\<forall>q. AssetFindMany q \<in>
                set (fst (fetchAllPdfRelatedData env bookingId organizationId userId role))
            \<longrightarrow> include_bookings_where q = empty_where)
       \<and> (\<forall>other :: Booking. matches_where empty_where other)
       \<and> (\<forall>res.
            snd (fetchAllPdfRelatedData env bookingId organizationId userId role) = Inr res
            \<longrightarrow> assets res =
                 filter (\<lambda>a. asset_id a \<in> set (booking_assets b)) (db_asset env))"
proof (intro conjI allI impI)
  fix q
  assume "AssetFindMany q \<in>
            set (fst (fetchAllPdfRelatedData env bookingId organizationId userId role))"
  then have "q = asset_query b"
    using fetch_issued_query [OF assms(1)] by blast
  then show "include_bookings_where q = empty_where"
    using bookings_where_unset [OF assms(2)] by (simp add: asset_query_def)
next
  fix other :: Booking
  show "matches_where empty_where other"
    by (rule matches_empty_where)
next
  fix res
  assume r: "snd (fetchAllPdfRelatedData env bookingId organizationId userId role) = Inr res"
  show "assets res = filter (\<lambda>a. asset_id a \<in> set (booking_assets b)) (db_asset env)"
    using fetch_resolved [OF assms(1) r] bookings_where_unset [OF assms(2)]
    by (simp add: matches_empty_where)
qed

theorem unset_window_no_filter_witness:
  "AssetFindMany (asset_query booking_open) \<in>
     set (fst (fetchAllPdfRelatedData
                 (env_with booking_open [booking_b2, booking_draft, booking_later])
                 ''b6'' ''o1'' ''u1'' (Some SELF_SERVICE)))
   \<and> include_bookings_where (asset_query booking_open) = empty_where
   \<and> snd (fetchAllPdfRelatedData
            (env_with booking_open [booking_b2, booking_draft, booking_later])
            ''b6'' ''o1'' ''u1'' (Some SELF_SERVICE)) =
       Inr (result_with booking_open [booking_b2, booking_draft, booking_later])
   \<and> assets (result_with booking_open [booking_b2, booking_draft, booking_later]) =
        filter (\<lambda>a. asset_id a \<in> set (booking_assets booking_open))
          (db_asset (env_with booking_open [booking_b2, booking_draft, booking_later]))"
proof -
  let ?env = "env_with booking_open [booking_b2, booking_draft, booking_later]"
  have g: "getBooking ?env ''b6'' ''o1'' = Inr (Some booking_open)"
    by (simp add: env_with_def booking_open_def)
  have u: "booking_from booking_open = None \<or> booking_to booking_open = None"
    by (simp add: booking_open_def)
  have q: "AssetFindMany (asset_query booking_open) \<in>
     set (fst (fetchAllPdfRelatedData ?env ''b6'' ''o1'' ''u1'' (Some SELF_SERVICE)))"
    using g by (simp add: fetchAllPdfRelatedData_def Let_def booking_open_def
        split: sum.splits prod.splits)
  have r: "snd (fetchAllPdfRelatedData ?env ''b6'' ''o1'' ''u1'' (Some SELF_SERVICE)) =
       Inr (result_with booking_open [booking_b2, booking_draft, booking_later])"
    using fetch_env_with [of booking_open "''u1''" "Some SELF_SERVICE"
        "[booking_b2, booking_draft, booking_later]"] bookings_where_unset [OF u]
    by (simp add: matches_empty_where) (simp add: booking_open_def)
  show ?thesis
    using unset_window_no_filter [OF g u, of "''u1''" "Some SELF_SERVICE"] q r by blast
qed

section \<open>Properties of getBookingAssetsCustomHeader\<close>

lemma after_marker_skip:
  "c \<notin> set l \<Longrightarrow> after_marker (c # m) (l @ rest) = after_marker (c # m) rest"
  by (induction l) auto

lemma after_marker_tags:
  \<open>after_marker ''<img src="'' (''        <style>\<newline>'' @ rest) =
     after_marker ''<img src="'' rest\<close>
  \<open>after_marker ''<img src="'' (''        </style>\<newline>'' @ rest) =
     after_marker ''<img src="'' rest\<close>
  \<open>after_marker ''<img src="'' (''        <div class="header">\<newline>'' @ rest) =
     after_marker ''<img src="'' rest\<close>
  \<open>after_marker ''<img src="'' (''            <img src="'' @ rest) = Some rest\<close>
  by simp_all

lemma after_marker_header:
  \<open>after_marker ''<img src="'' (header_before_src @ rest) = Some rest\<close>
  by (simp add: header_before_src_def after_marker_skip after_marker_tags del: append.simps)

lemma takeWhile_until_quote:
  assumes "CHR 0x22 \<notin> set s"
  shows "takeWhile (\<lambda>c. c \<noteq> CHR 0x22) (s @ header_before_name @ rest) = s"
proof -
  have "takeWhile (\<lambda>c. c \<noteq> CHR 0x22) (s @ header_before_name @ rest) =
        s @ takeWhile (\<lambda>c. c \<noteq> CHR 0x22) (header_before_name @ rest)"
    using assms by (intro takeWhile_append2) auto
  then show ?thesis by (simp add: header_before_name_def)
qed

lemma img_src_header:
  "CHR 0x22 \<notin> set (base64Image r) \<Longrightarrow>
   img_src (getBookingAssetsCustomHeader r) = Some (base64Image r)"
  by (simp add: img_src_def getBookingAssetsCustomHeader_def after_marker_header
      takeWhile_until_quote)

lemma base64_char_no_quote: "i < 64 \<Longrightarrow> base64_char i \<noteq> CHR 0x22"
proof -
  assume "i < 64"
  then have "base64_alphabet ! i \<in> set base64_alphabet"
    by (intro nth_mem) (simp add: base64_alphabet_def)
  moreover have "CHR 0x22 \<notin> set base64_alphabet"
    by (simp add: base64_alphabet_def)
  ultimately show ?thesis by (auto simp add: base64_char_def)
qed

lemma byte_bound: "unat (a :: byte) < 256"
  using unsigned_less [of a, where 'a = nat] by simp

lemma sextet_bounds:
  fixes a b c :: byte
  shows "unat a div 4 < 64" and "(unat a mod 4) * 16 < 64"
    and "(unat a mod 4) * 16 + unat b div 16 < 64" and "(unat b mod 16) * 4 < 64"
    and "(unat b mod 16) * 4 + unat c div 64 < 64" and "unat c mod 64 < 64"
  using byte_bound [of a] byte_bound [of b] byte_bound [of c] by arith+

lemma base64_no_quote: "CHR 0x22 \<notin> set (base64 bs)"
proof (induction bs rule: base64.induct)
  case 1
  show ?case by simp
next
  case (2 a)
  show ?case
    using base64_char_no_quote [OF sextet_bounds(1), of a]
      base64_char_no_quote [OF sextet_bounds(2), of a]
    by simp
next
  case (3 a b)
  show ?case
    using base64_char_no_quote [OF sextet_bounds(1), of a]
      base64_char_no_quote [OF sextet_bounds(3), of a b]
      base64_char_no_quote [OF sextet_bounds(4), of b]
    by simp
next
  case (4 a b c rest)
  show ?case
    using 4 base64_char_no_quote [OF sextet_bounds(1), of a]
      base64_char_no_quote [OF sextet_bounds(3), of a b]
      base64_char_no_quote [OF sextet_bounds(5), of b c]
      base64_char_no_quote [OF sextet_bounds(6), of c]
    by simp
qed

lemma base64Image_no_quote: "CHR 0x22 \<notin> set (base64Image r)"
  using base64_no_quote by (simp add: base64Image_def split: option.splits)

text \<open>
  C7. When the organization is null or has no image, the \<open>src\<close> attribute of the
  fragment's \<open>img\<close> tag is the empty string; when the organization has an image, it is
  \<open>data:image/png;base64,\<close> followed by the base64 encoding of the image's bytes.
\<close>

theorem logo_src:
  "((organization r = None \<or> (\<exists>orga. organization r = Some orga \<and> organization_image orga = None))
      \<longrightarrow> img_src (getBookingAssetsCustomHeader r) = Some [])
   \<and> (\<forall>orga i. organization r = Some orga \<and> organization_image orga = Some i
      \<longrightarrow> img_src (getBookingAssetsCustomHeader r) =
            Some (''data:image/png;base64,'' @ base64 (image_blob i)))"
  using img_src_header [OF base64Image_no_quote, of r]
  by (auto simp add: base64Image_def orgImageBlob_def)

theorem logo_src_witness:
  "img_src (getBookingAssetsCustomHeader (result_with booking_b1 [])) =
     Some ''data:image/png;base64,TWFu''
   \<and> img_src (getBookingAssetsCustomHeader ((result_with booking_b1 [])\<lparr>organization := None\<rparr>)) =
     Some []"
  using logo_src [of "result_with booking_b1 []"]
    logo_src [of "(result_with booking_b1 [])\<lparr>organization := None\<rparr>"]
  by (simp add: result_with_def org_o1_def base64_char_def base64_alphabet_def)

section \<open>Properties of generatePdfContent\<close>

lemma pdf_call_options:
  "Pdf opts \<in> set (fst (generatePdfContent br html ht st)) \<Longrightarrow> opts = pdf_options ht st"
  by (auto simp add: generatePdfContent_def Let_def split: option.splits sum.splits)

lemma pdf_call_reached:
  "launch_rejects br = None \<Longrightarrow> newPage_rejects br = None \<Longrightarrow> setContent br html = None \<Longrightarrow>
   Pdf (pdf_options ht st) \<in> set (fst (generatePdfContent br html ht st))"
  by (auto simp add: generatePdfContent_def Let_def split: option.splits sum.splits)

lemma or_empty_Some: "or_empty (Some s) = s"
  by (simp add: or_empty_def)

text \<open>
  C5. \<open>browser.close()\<close> is called exactly when the launch, the new page, the content load
  and the PDF export have all resolved. When the content load or the export rejects, the
  call rejects with that same error, the calls made end with the one that failed, and
  \<open>close\<close> is not among them. No call on the browser is made twice.
\<close>

theorem close_only_on_success:
  "(Close \<in> set (fst (generatePdfContent br html ht st)) =
      (launch_rejects br = None \<and> newPage_rejects br = None \<and> setContent br html = None \<and>
       (\<exists>pdfBuffer. pdf br (pdf_options ht st) = Inr pdfBuffer)))
   \<and> (launch_rejects br = None \<and> newPage_rejects br = None \<and> setContent br html = Some e \<longrightarrow>
        generatePdfContent br html ht st =
          ([Launch, NewPage, SetContent html ''networkidle0''], Inl e))
   \<and> (launch_rejects br = None \<and> newPage_rejects br = None \<and> setContent br html = None \<and>
       pdf br (pdf_options ht st) = Inl e \<longrightarrow>
        generatePdfContent br html ht st =
          ([Launch, NewPage, SetContent html ''networkidle0'', Pdf (pdf_options ht st)], Inl e))
   \<and> distinct (fst (generatePdfContent br html ht st))"
  by (auto simp add: generatePdfContent_def Let_def split: option.splits sum.splits)

theorem close_only_on_success_witness:
  "generatePdfContent (browser_with (Some (Thrown ''timeout'')) (Inr [])) ''<p>x</p>'' None None =
     ([Launch, NewPage, SetContent ''<p>x</p>'' ''networkidle0''], Inl (Thrown ''timeout''))
   \<and> Close \<notin> set (fst (generatePdfContent (browser_with (Some (Thrown ''timeout'')) (Inr []))
                          ''<p>x</p>'' None None))
   \<and> generatePdfContent (browser_with None (Inl (Thrown ''crash''))) ''<p>x</p>'' None None =
     ([Launch, NewPage, SetContent ''<p>x</p>'' ''networkidle0'', Pdf (pdf_options None None)],
      Inl (Thrown ''crash''))
   \<and> Close \<notin> set (fst (generatePdfContent (browser_with None (Inl (Thrown ''crash'')))
                          ''<p>x</p>'' None None))"
  using close_only_on_success [of "browser_with (Some (Thrown ''timeout'')) (Inr [])" "''<p>x</p>''" None None "Thrown ''timeout''"]
    close_only_on_success [of "browser_with None (Inl (Thrown ''crash''))" "''<p>x</p>''" None None "Thrown ''crash''"]
  by (simp add: browser_with_def)

text \<open>
  C6. The \<open>headerTemplate\<close> of the options handed to \<open>page.pdf\<close> is the header template
  argument as it was given, and the empty string when the argument is omitted; the
  export is called with these options whenever launch, new page and content load resolve.
\<close>

theorem header_template_passed:
  "(\<forall>opts. Pdf opts \<in> set (fst (generatePdfContent br html ht st)) \<longrightarrow>
       headerTemplate opts = (case ht of None \<Rightarrow> [] | Some s \<Rightarrow> s))
   \<and> (launch_rejects br = None \<and> newPage_rejects br = None \<and> setContent br html = None \<longrightarrow>
        Pdf (pdf_options ht st) \<in> set (fst (generatePdfContent br html ht st)))"
proof (intro conjI allI impI)
  fix opts
  assume "Pdf opts \<in> set (fst (generatePdfContent br html ht st))"
  then have "opts = pdf_options ht st" by (rule pdf_call_options)
  then show "headerTemplate opts = (case ht of None \<Rightarrow> [] | Some s \<Rightarrow> s)"
    by (simp add: pdf_options_def or_empty_def split: option.splits)
next
  assume "launch_rejects br = None \<and> newPage_rejects br = None \<and> setContent br html = None"
  then show "Pdf (pdf_options ht st) \<in> set (fst (generatePdfContent br html ht st))"
    by (simp add: pdf_call_reached)
qed

theorem header_template_passed_witness:
  "Pdf (pdf_options (Some ''<b>h</b>'') None) \<in>
     set (fst (generatePdfContent (browser_with None (Inr [0x25, 0x50, 0x44, 0x46])) ''<p>x</p>''
                 (Some ''<b>h</b>'') None))
   \<and> headerTemplate (pdf_options (Some ''<b>h</b>'') None) = ''<b>h</b>''
   \<and> Pdf (pdf_options None None) \<in>
     set (fst (generatePdfContent (browser_with None (Inr [0x25, 0x50, 0x44, 0x46])) ''<p>x</p>''
                 None None))
   \<and> headerTemplate (pdf_options None None) = ''''"
  using header_template_passed [of "browser_with None (Inr [0x25, 0x50, 0x44, 0x46])" "''<p>x</p>''" "Some ''<b>h</b>''" None]
    header_template_passed [of "browser_with None (Inr [0x25, 0x50, 0x44, 0x46])" "''<p>x</p>''" None None]
  by (simp add: browser_with_def)

text \<open>
  C8. In the options handed to \<open>page.pdf\<close>, the margin under each key is the value the
  caller's \<open>styles\<close> gives for that key when it has one, and the default otherwise; the
  defaults are top 80px, bottom 30px, left 20px and right 20px.
\<close>

theorem margin_defaults_overridden:
  "(\<forall>opts k. Pdf opts \<in> set (fst (generatePdfContent br html ht st)) \<longrightarrow>
       margin opts k =
         (case st of
            None \<Rightarrow> default_margin k
          | Some styles \<Rightarrow> (case styles k of Some v \<Rightarrow> Some v | None \<Rightarrow> default_margin k)))
   \<and> default_margin ''top'' = Some ''80px'' \<and> default_margin ''bottom'' = Some ''30px''
   \<and> default_margin ''left'' = Some ''20px'' \<and> default_margin ''right'' = Some ''20px''
   \<and> dom default_margin = {''top'', ''bottom'', ''left'', ''right''}"
proof (intro conjI allI impI)
  fix opts k
  assume "Pdf opts \<in> set (fst (generatePdfContent br html ht st))"
  then have "opts = pdf_options ht st" by (rule pdf_call_options)
  then show "margin opts k =
         (case st of
            None \<Rightarrow> default_margin k
          | Some styles \<Rightarrow> (case styles k of Some v \<Rightarrow> Some v | None \<Rightarrow> default_margin k))"
    by (simp add: pdf_options_def map_add_def split: option.splits)
qed (auto simp add: default_margin_def)

theorem margin_defaults_overridden_witness:
  "Pdf (pdf_options None (Some [''top'' \<mapsto> ''100px''])) \<in>
     set (fst (generatePdfContent (browser_with None (Inr [0x25, 0x50, 0x44, 0x46])) ''<p>x</p>''
                 None (Some [''top'' \<mapsto> ''100px''])))
   \<and> margin (pdf_options None (Some [''top'' \<mapsto> ''100px''])) ''top'' = Some ''100px''
   \<and> margin (pdf_options None (Some [''top'' \<mapsto> ''100px''])) ''bottom'' = Some ''30px''
   \<and> margin (pdf_options None (Some [''top'' \<mapsto> ''100px''])) ''left'' = Some ''20px''
   \<and> margin (pdf_options None (Some [''top'' \<mapsto> ''100px''])) ''right'' = Some ''20px''"
proof -
  let ?br = "browser_with None (Inr [0x25, 0x50, 0x44, 0x46])"
  let ?st = "Some [''top'' \<mapsto> ''100px'']"
  have r: "Pdf (pdf_options None ?st) \<in> set (fst (generatePdfContent ?br ''<p>x</p>'' None ?st))"
    by (rule pdf_call_reached) (simp_all add: browser_with_def)
  show ?thesis
    using r margin_defaults_overridden [of ?br "''<p>x</p>''" None ?st]
    by (simp add: default_margin_def)
qed

section \<open>Properties of the Dialog component\<close>

text \<open>
  C10. Whatever the children, \<open>Dialog\<close> with \<open>open\<close> false renders null, a tree with no
  click handler in it; it renders null only then. With \<open>open\<close> true it renders the
  backdrop \<open>div\<close>, carrying the backdrop click handler, around the \<open>dialog\<close> element, whose
  content is the close button followed by the children.
\<close>

theorem dialog_closed_renders_null:
  "Dialog matches children False = Null
   \<and> onClick_handlers (Dialog matches children False) = []
   \<and> (Dialog matches children open_arg = Null) = (\<not> open_arg)
   \<and> (\<exists>button. Dialog matches children True =
        Element ''div''
          [(''className'', Str ''dialog-backdrop''),
           (''onClick'', OnClick (handleBackdropClose (prevRoute matches)))]
          [Element ''dialog'' [(''className'', Str ''dialog''), (''open'', Bool True)]
             [button, children]])
   \<and> onClick_handlers (Dialog matches children True) =
        handleBackdropClose (prevRoute matches) # onClick_handlers children"
  by (simp add: Dialog_def)

end
